theory Spec2Isabelle
  imports Main
begin

section \<open>Go strings\<close>

text \<open>
  A Go string is a sequence of bytes, and so is a HOL \<open>string\<close>.  The functions of package
  \<^verbatim>\<open>strings\<close> that \<^verbatim>\<open>cmd/root.go\<close> calls are written out below the way the Go standard
  library computes them.
\<close>

definition HasPrefix :: "string \<Rightarrow> string \<Rightarrow> bool" where
  \<comment> \<open>\<^verbatim>\<open>len(s) >= len(prefix) && s[:len(prefix)] == prefix\<close>\<close>
  "HasPrefix s pre = (length pre \<le> length s \<and> take (length pre) s = pre)"

definition HasSuffix :: "string \<Rightarrow> string \<Rightarrow> bool" where
  \<comment> \<open>\<^verbatim>\<open>len(s) >= len(suffix) && s[len(s)-len(suffix):] == suffix\<close>\<close>
  "HasSuffix s suf = (length suf \<le> length s \<and> drop (length s - length suf) s = suf)"

definition TrimPrefix :: "string \<Rightarrow> string \<Rightarrow> string" where
  "TrimPrefix s pre = (if HasPrefix s pre then drop (length pre) s else s)"

definition TrimSuffix :: "string \<Rightarrow> string \<Rightarrow> string" where
  "TrimSuffix s suf = (if HasSuffix s suf then take (length s - length suf) s else s)"

fun IndexByte :: "string \<Rightarrow> char \<Rightarrow> nat option" where
  "IndexByte [] c = None"
| "IndexByte (x # xs) c = (if x = c then Some 0 else map_option Suc (IndexByte xs c))"

text \<open>
  \<^verbatim>\<open>strings.Split(s, sep)\<close> for a separator of one byte, which is how the program calls it
  (\<^verbatim>\<open>"/"\<close>, \<^verbatim>\<open>":"\<close> and \<^verbatim>\<open>"\n"\<close>): cut at the first separator, go on with what follows
  it, and end with the remainder, so that the result is never empty and splits at every
  occurrence.
\<close>

function Split :: "string \<Rightarrow> char \<Rightarrow> string list" where
  "Split s sep =
     (case IndexByte s sep of
        None \<Rightarrow> [s]
      | Some m \<Rightarrow> take m s # Split (drop (m + 1) s) sep)"
  by pat_completeness auto
termination
proof (relation "measure (\<lambda>(s, sep). length s)")
  show "wf (measure (\<lambda>(s, sep). length s))"
    by simp
next
  fix s :: string and sep :: char and m :: nat
  assume found: "IndexByte s sep = Some m"
  have "\<And>k. IndexByte s sep = Some k \<Longrightarrow> k < length s"
    by (induction s) (auto split: if_splits)
  from this[OF found] show "((drop (m + 1) s, sep), (s, sep)) \<in> measure (\<lambda>(s, sep). length s)"
    by simp
qed

declare Split.simps [simp del]

section \<open>Errors\<close>

text \<open>
  An error value is built by \<^verbatim>\<open>errors.New\<close> from a message, or by \<^verbatim>\<open>errors.Wrap\<close> from a
  cause and a context; \<open>Error\<close> is the text its \<^verbatim>\<open>Error()\<close> method returns.
\<close>

datatype error = New string | Wrap error string

fun Error :: "error \<Rightarrow> string" where
  "Error (New msg) = msg"
| "Error (Wrap cause msg) = msg @ '': '' @ Error cause"

section \<open>The remote URL\<close>

definition parseRemoteURL :: "string \<Rightarrow> error + string" where
  "parseRemoteURL url =
     (if HasPrefix url ''https://'' then
        (let trimURL = TrimPrefix url ''https://'';
             parts = Split trimURL CHR ''/''
         in if length parts < 3
            then Inl (New (''invalid remote url structure: '' @ url))
            else (let baseURL = ''https://'' @ parts ! 0;
                      ws = parts ! 1;
                      repoName = TrimSuffix (parts ! 2) ''.git''
                  in Inr (baseURL @ ''/'' @ ws @ ''/'' @ repoName)))
      else if HasPrefix url ''git@'' then
        (let trimURL = TrimPrefix url ''git@'';
             parts = Split trimURL CHR '':''
         in if length parts < 2
            then Inl (New (''invalid remote url structure: '' @ url))
            else (let baseURL = ''https://'' @ parts ! 0;
                      repoParts = Split (parts ! 1) CHR ''/''
                  in if length repoParts < 2
                     then Inl (New (''invalid remote url structure: '' @ url))
                     else (let ws = repoParts ! 0;
                               repoName = TrimSuffix (repoParts ! 1) ''.git''
                           in Inr (baseURL @ ''/'' @ ws @ ''/'' @ repoName))))
      else Inl (New (''unsupported remote url structure: '' @ url)))"

section \<open>The process and its collaborators\<close>

text \<open>
  What the process writes, and how it ends when it does not return: \<^verbatim>\<open>os.Exit\<close> with a
  status, or a run-time panic.
\<close>

record Output =
  stdout :: string
  stderr :: string

datatype ending = Exit nat | Panic string

text \<open>
  The version-control library is a collaborator: the model takes what its calls return as
  given.  A commit shows its hash as text (\<^verbatim>\<open>c.Hash.String()\<close>) and its message.  A log
  iterator yields its commits in order and then either ends or fails with an error.  A
  repository answers \<^verbatim>\<open>Remote(name)\<close> (with the URL list of the remote's configuration),
  \<^verbatim>\<open>Head()\<close> and \<^verbatim>\<open>Log(from)\<close>.
\<close>

record Commit =
  Hash :: string
  Message :: string

record CommitIter =
  commits :: "Commit list"
  failure :: "error option"

record Repository =
  Remote :: "string \<Rightarrow> error + string list"
  Head :: "error + string"
  Log :: "string \<Rightarrow> error + CommitIter"

text \<open>
  The calendar date of \<^verbatim>\<open>time.Now()\<close>, and \<^verbatim>\<open>Format("2006-01-02")\<close> on it: year, month
  and day in decimal, padded with zeros to 4, 2 and 2 digits.
\<close>

record Time =
  Year :: nat
  Month :: nat
  Day :: nat

fun decimal :: "nat \<Rightarrow> string" where
  "decimal n = (if n < 10 then [char_of (48 + n)] else decimal (n div 10) @ [char_of (48 + n mod 10)])"

declare decimal.simps [simp del]

definition appendInt :: "nat \<Rightarrow> nat \<Rightarrow> string" where
  "appendInt x width = replicate (width - length (decimal x)) CHR ''0'' @ decimal x"

definition Format :: "Time \<Rightarrow> string" where
  "Format t = appendInt (Year t) 4 @ ''-'' @ appendInt (Month t) 2 @ ''-'' @ appendInt (Day t) 2"

text \<open>
  The world of one invocation: the positional arguments and the value of \<^verbatim>\<open>--dir\<close> as the
  flag parser hands them over, what the flag parser itself prints when it rejects the
  arguments, what \<^verbatim>\<open>git.PlainOpen\<close> returns for a directory, and the clock.
\<close>

record World =
  args :: "string list"
  dir :: string
  usage :: string
  PlainOpen :: "string \<Rightarrow> error + Repository"
  Now :: Time

section \<open>The program\<close>

record Change =
  SHA :: string
  Title :: string
  URL :: string

record Release =
  Version :: string
  Date :: string
  Changes :: "Change list"

definition newline :: char where
  "newline = CHR 0x0A"

definition escape :: char where
  "escape = CHR 0x1B"

text \<open>
  \<^verbatim>\<open>bail\<close>, lines 20 to 24.  \<open>bail_format\<close> is the format string of line 22 around its
  argument: a line feed, the escape sequence for bold red, the text, the escape sequence
  that resets, a line feed.  \<open>bail_exit\<close> is the path of \<^verbatim>\<open>bail\<close> for an error that is not
  nil: \<^verbatim>\<open>fmt.Printf\<close> writes to standard output, then \<^verbatim>\<open>os.Exit(1)\<close>.
\<close>

definition bail_format :: "string \<Rightarrow> string" where
  "bail_format v = [newline, escape] @ ''[31;1m'' @ v @ [escape] @ ''[0m'' @ [newline]"

definition bail_exit :: "error \<Rightarrow> Output \<Rightarrow> Output \<times> ending" where
  "bail_exit err out =
     (out\<lparr>stdout := stdout out @ bail_format (''error: '' @ Error err)\<rparr>, Exit 1)"

definition bail :: "error option \<Rightarrow> Output \<Rightarrow> Output \<times> ending option" where
  "bail err out =
     (case err of
        None \<Rightarrow> (out, None)
      | Some e \<Rightarrow> (case bail_exit e out of (out', e') \<Rightarrow> (out', Some e')))"

text \<open>
  The callback given to \<^verbatim>\<open>iter.ForEach\<close>, lines 86 to 97, with the release it appends to
  passed in and out.  \<open>newChange\<close> is lines 87 to 94, the change made from one commit:
  \<^verbatim>\<open>hashStr[:7]\<close> panics on a string of fewer than 7 bytes; index 0 of a \<open>Split\<close> always
  exists.  The callback returns nil in every case.
\<close>

definition newChange :: "bool \<Rightarrow> string \<Rightarrow> Commit \<Rightarrow> ending + Change" where
  "newChange useURL remoteURL c =
     (let hashStr = Hash c;
          changeURL = (if useURL then remoteURL @ ''/commits/'' @ hashStr else [])
      in if length hashStr < 7
         then Inl (Panic ''slice bounds out of range [:7]'')
         else Inr \<lparr>SHA = take 7 hashStr,
                   Title = Split (Message c) newline ! 0,
                   URL = changeURL\<rparr>)"

definition logCallback :: "bool \<Rightarrow> string \<Rightarrow> Release \<Rightarrow> Commit \<Rightarrow> ending + Release" where
  "logCallback useURL remoteURL release c =
     (case newChange useURL remoteURL c of
        Inl p \<Rightarrow> Inl p
      | Inr change \<Rightarrow> Inr (release\<lparr>Changes := Changes release @ [change]\<rparr>))"

text \<open>
  \<^verbatim>\<open>ForEach\<close> calls the callback on each commit the iterator yields; since the callback
  never returns an error, the error \<^verbatim>\<open>ForEach\<close> returns is the iterator's own failure.
\<close>

fun forEach :: "Commit list \<Rightarrow> error option \<Rightarrow> ('s \<Rightarrow> Commit \<Rightarrow> ending + 's) \<Rightarrow> 's \<Rightarrow> ending + ('s \<times> error option)" where
  "forEach [] fail cb s = Inr (s, fail)"
| "forEach (c # cs) fail cb s =
     (case cb s c of
        Inl p \<Rightarrow> Inl p
      | Inr s' \<Rightarrow> forEach cs fail cb s')"

definition ForEach :: "CommitIter \<Rightarrow> ('s \<Rightarrow> Commit \<Rightarrow> ending + 's) \<Rightarrow> 's \<Rightarrow> ending + ('s \<times> error option)" where
  "ForEach iter cb s = forEach (commits iter) (failure iter) cb s"

text \<open>
  Lines 60 to 68: the remote named origin.  Any error of \<^verbatim>\<open>repo.Remote\<close> turns links off;
  otherwise element 0 of the URL list is read, which panics on an empty list, and parsed.
\<close>

definition originURL :: "Repository \<Rightarrow> Output \<Rightarrow> (Output \<times> ending) + (bool \<times> string)" where
  "originURL repo out =
     (case Remote repo ''origin'' of
        Inl err \<Rightarrow> Inr (False, [])
      | Inr urls \<Rightarrow>
          (case urls of
             [] \<Rightarrow> Inl (out, Panic ''index out of range [0] with length 0'')
           | url # rest \<Rightarrow>
               (case parseRemoteURL url of
                  Inl err \<Rightarrow> Inl (bail_exit err out)
                | Inr remoteURL \<Rightarrow> Inr (True, remoteURL))))"

text \<open>
  Lines 49 to 97 of \<^verbatim>\<open>rootCmd.Run\<close>: everything up to the template.  The result is the
  release handed to the template, or the output and the ending of a process that stopped
  before.  The error returned by \<^verbatim>\<open>ForEach\<close> is assigned to \<^verbatim>\<open>err\<close> and never read.
\<close>

definition workdir :: "World \<Rightarrow> string" where
  \<comment> \<open>lines 50 to 53\<close>
  "workdir w = (if dir w = [] then ''.'' else dir w)"

definition buildRelease :: "World \<Rightarrow> Output \<Rightarrow> (Output \<times> ending) + Release" where
  "buildRelease w out =
     (case args w of
        [] \<Rightarrow> Inl (out, Panic ''index out of range [0] with length 0'')
      | version # ignored \<Rightarrow>
          (let d = workdir w
           in case PlainOpen w d of
                Inl err \<Rightarrow> Inl (bail_exit (Wrap err ''failed to open git repository'') out)
              | Inr repo \<Rightarrow>
                  (case originURL repo out of
                     Inl stop \<Rightarrow> Inl stop
                   | Inr (useURL, remoteURL) \<Rightarrow>
                       (case Head repo of
                          Inl err \<Rightarrow> Inl (bail_exit (Wrap err ''failed to get head ref'') out)
                        | Inr ref \<Rightarrow>
                            (case Log repo ref of
                               Inl err \<Rightarrow> Inl (bail_exit (Wrap err ''failed to get commit log'') out)
                             | Inr iter \<Rightarrow>
                                 (let date = Format (Now w);
                                      release = \<lparr>Version = version, Date = date, Changes = []\<rparr>
                                  in case ForEach iter (logCallback useURL remoteURL) release of
                                       Inl p \<Rightarrow> Inl (out, p)
                                     | Inr (release', err) \<Rightarrow> Inr release'))))))"

text \<open>
  \<^verbatim>\<open>releaseTemplate\<close>, lines 38 to 42, as the template engine executes it: fields are
  substituted as they are, and \<^verbatim>\<open>{{ if .URL }}\<close> tests for a string that is not empty.
\<close>

definition renderChange :: "Change \<Rightarrow> string" where
  "renderChange c =
     [newline] @ ''- '' @ Title c @ '' '' @
     (if URL c \<noteq> [] then ''['' @ SHA c @ '']('' @ URL c @ '')'' else ''['' @ SHA c @ '']'')"

definition render :: "Release \<Rightarrow> string" where
  "render r =
     [newline] @ ''## ['' @ Version r @ ''] - '' @ Date r @ [newline] @
     concat (map renderChange (Changes r)) @ [newline]"

text \<open>\<^verbatim>\<open>rootCmd.Run\<close>: \<open>None\<close> is a normal return.\<close>

definition Run :: "World \<Rightarrow> Output \<Rightarrow> Output \<times> ending option" where
  "Run w out =
     (case buildRelease w out of
        Inl (out', e) \<Rightarrow> (out', Some e)
      | Inr release \<Rightarrow> (out\<lparr>stdout := stdout out @ render release\<rparr>, None))"

text \<open>
  \<^verbatim>\<open>rootCmd.Execute()\<close>: \<^verbatim>\<open>cobra.MinimumNArgs(1)\<close> rejects an empty argument list, on which
  the flag parser prints its own message to standard error and returns the error; otherwise
  \<open>Run\<close> runs.  The result is the ending of a process that stopped inside, or the error
  returned.  The arguments are taken as already split into positional arguments and the
  value of \<^verbatim>\<open>--dir\<close>; a command line that the flag parser cannot split is outside the model.
\<close>

definition rootCmd_Execute :: "World \<Rightarrow> Output \<Rightarrow> Output \<times> (ending + error option)" where
  "rootCmd_Execute w out =
     (if length (args w) < 1
      then (out\<lparr>stderr := stderr out @ usage w\<rparr>,
            Inr (Some (New ''requires at least 1 arg(s), only received 0'')))
      else (case Run w out of
              (out', Some e) \<Rightarrow> (out', Inl e)
            | (out', None) \<Rightarrow> (out', Inr None)))"

text \<open>\<^verbatim>\<open>Execute\<close>, lines 139 to 141, from an empty output; \<open>None\<close> is a normal return.\<close>

definition Execute :: "World \<Rightarrow> Output \<times> ending option" where
  "Execute w =
     (case rootCmd_Execute w \<lparr>stdout = [], stderr = []\<rparr> of
        (out, Inl e) \<Rightarrow> (out, Some e)
      | (out, Inr err) \<Rightarrow> bail err out)"

section \<open>Example repositories\<close>

text \<open>
  Repositories and invocations to run the program on: a repository of three commits whose
  origin is an SSH remote, and variations of it in which one call of the library fails.
\<close>

definition commit1 :: Commit where
  "commit1 = \<lparr>Hash = ''abcdef1234567890abcdef1234567890abcdef12'',
              Message = ''Fix bug'' @ [newline, newline] @ ''details''\<rparr>"

definition commit2 :: Commit where
  "commit2 = \<lparr>Hash = ''0123456789abcdef0123456789abcdef01234567'', Message = ''Add feature''\<rparr>"

definition commit3 :: Commit where
  "commit3 = \<lparr>Hash = ''fedcba9876543210fedcba9876543210fedcba98'', Message = ''Initial commit''\<rparr>"

definition remote_ssh :: "string \<Rightarrow> error + string list" where
  "remote_ssh name =
     (if name = ''origin'' then Inr [''git@github.com:acme/widget.git'']
      else Inl (New ''remote not found''))"

definition remote_none :: "string \<Rightarrow> error + string list" where
  "remote_none name = Inl (New ''remote not found'')"

definition remote_svn :: "string \<Rightarrow> error + string list" where
  "remote_svn name =
     (if name = ''origin'' then Inr [''svn://host/ws/repo'']
      else Inl (New ''remote not found''))"

definition remote_no_urls :: "string \<Rightarrow> error + string list" where
  "remote_no_urls name =
     (if name = ''origin'' then Inr [] else Inl (New ''remote not found''))"

definition log_three :: "string \<Rightarrow> error + CommitIter" where
  "log_three from = Inr \<lparr>commits = [commit1, commit2, commit3], failure = None\<rparr>"

definition log_broken :: "string \<Rightarrow> error + CommitIter" where
  "log_broken from = Inr \<lparr>commits = [commit1], failure = Some (New ''object not found'')\<rparr>"

definition log_refused :: "string \<Rightarrow> error + CommitIter" where
  "log_refused from = Inl (New ''object not found'')"

definition repo_ssh :: Repository where
  "repo_ssh = \<lparr>Remote = remote_ssh, Head = Inr (Hash commit1), Log = log_three\<rparr>"

definition repo_plain :: Repository where
  "repo_plain = \<lparr>Remote = remote_none, Head = Inr (Hash commit1), Log = log_three\<rparr>"

definition repo_svn :: Repository where
  "repo_svn = \<lparr>Remote = remote_svn, Head = Inr (Hash commit1), Log = log_three\<rparr>"

definition repo_no_urls :: Repository where
  "repo_no_urls = \<lparr>Remote = remote_no_urls, Head = Inr (Hash commit1), Log = log_three\<rparr>"

definition repo_unborn :: Repository where
  "repo_unborn = \<lparr>Remote = remote_ssh, Head = Inl (New ''reference not found''), Log = log_three\<rparr>"

definition repo_refused :: Repository where
  "repo_refused = \<lparr>Remote = remote_ssh, Head = Inr (Hash commit1), Log = log_refused\<rparr>"

definition repo_broken :: Repository where
  "repo_broken = \<lparr>Remote = remote_none, Head = Inr (Hash commit1), Log = log_broken\<rparr>"

definition open_none :: "string \<Rightarrow> error + Repository" where
  "open_none d = Inl (New ''repository does not exist'')"

definition open_here :: "Repository \<Rightarrow> string \<Rightarrow> error + Repository" where
  "open_here repo d = (if d = ''.'' then Inr repo else Inl (New ''repository does not exist''))"

definition day1 :: Time where
  "day1 = \<lparr>Year = 2026, Month = 3, Day = 9\<rparr>"

definition day2 :: Time where
  "day2 = \<lparr>Year = 2027, Month = 11, Day = 30\<rparr>"

definition release_ssh :: Release where
  "release_ssh =
     \<lparr>Version = ''1.2.0'', Date = ''2026-03-09'',
      Changes =
        [\<lparr>SHA = ''abcdef1'', Title = ''Fix bug'',
          URL = ''https://github.com/acme/widget/commits/abcdef1234567890abcdef1234567890abcdef12''\<rparr>,
         \<lparr>SHA = ''0123456'', Title = ''Add feature'',
          URL = ''https://github.com/acme/widget/commits/0123456789abcdef0123456789abcdef01234567''\<rparr>,
         \<lparr>SHA = ''fedcba9'', Title = ''Initial commit'',
          URL = ''https://github.com/acme/widget/commits/fedcba9876543210fedcba9876543210fedcba98''\<rparr>]\<rparr>"

definition release_plain :: Release where
  "release_plain =
     \<lparr>Version = ''1.2.0'', Date = ''2026-03-09'',
      Changes =
        [\<lparr>SHA = ''abcdef1'', Title = ''Fix bug'', URL = []\<rparr>,
         \<lparr>SHA = ''0123456'', Title = ''Add feature'', URL = []\<rparr>,
         \<lparr>SHA = ''fedcba9'', Title = ''Initial commit'', URL = []\<rparr>]\<rparr>"

definition world :: "Repository \<Rightarrow> World" where
  "world repo = \<lparr>args = [''1.2.0''], dir = [], usage = ''Usage: sumit [flags]'',
                  PlainOpen = open_here repo, Now = day1\<rparr>"

definition world_no_args :: World where
  "world_no_args = \<lparr>args = [], dir = [], usage = ''Usage: sumit [flags]'',
                     PlainOpen = open_here repo_ssh, Now = day1\<rparr>"

definition world_no_repo :: World where
  "world_no_repo = \<lparr>args = [''1.2.0''], dir = ''/tmp'', usage = ''Usage: sumit [flags]'',
                     PlainOpen = open_none, Now = day1\<rparr>"

section \<open>Facts about the string functions\<close>

lemma HasPrefix_Nil: "HasPrefix s []"
  by (simp add: HasPrefix_def)

lemma HasPrefix_Cons: "HasPrefix s (p # ps) = (case s of [] \<Rightarrow> False | x # xs \<Rightarrow> x = p \<and> HasPrefix xs ps)"
  by (cases s) (auto simp: HasPrefix_def)

lemma HasPrefix_append: "HasPrefix (pre @ s) pre"
  by (simp add: HasPrefix_def)

lemma TrimPrefix_append: "TrimPrefix (pre @ s) pre = s"
  by (simp add: TrimPrefix_def HasPrefix_append)

lemma HasSuffix_iff: "HasSuffix s suf = (\<exists>a. s = a @ suf)"
proof
  assume "HasSuffix s suf"
  then have "s = take (length s - length suf) s @ suf"
    by (metis HasSuffix_def append_take_drop_id)
  then show "\<exists>a. s = a @ suf" ..
next
  assume "\<exists>a. s = a @ suf"
  then show "HasSuffix s suf" by (auto simp: HasSuffix_def)
qed

lemma TrimSuffix_append: "TrimSuffix (s @ suf) suf = s"
  by (simp add: TrimSuffix_def HasSuffix_def)

lemma TrimSuffix_id: "\<not> HasSuffix s suf \<Longrightarrow> TrimSuffix s suf = s"
  by (simp add: TrimSuffix_def)

lemma IndexByte_absent: "c \<notin> set s \<Longrightarrow> IndexByte s c = None"
  by (induction s) auto

lemma IndexByte_first: "c \<notin> set a \<Longrightarrow> IndexByte (a @ c # b) c = Some (length a)"
  by (induction a) auto

lemma Split_absent: "c \<notin> set s \<Longrightarrow> Split s c = [s]"
  by (simp add: Split.simps IndexByte_absent)

lemma Split_first: "c \<notin> set a \<Longrightarrow> Split (a @ c # b) c = a # Split b c"
  by (subst Split.simps) (simp add: IndexByte_first)

lemma Split_not_Nil: "Split s c \<noteq> []"
  by (subst Split.simps) (simp split: option.splits)

lemma IndexByte_Some_iff: "IndexByte s c = Some m \<Longrightarrow> c \<notin> set (take m s) \<and> s = take m s @ c # drop (Suc m) s"
  by (induction s arbitrary: m) (auto split: if_splits)

lemma takeWhile_absent: "c \<notin> set s \<Longrightarrow> takeWhile (\<lambda>x. x \<noteq> c) s = s"
  by (induction s) auto

lemma takeWhile_first: "c \<notin> set a \<Longrightarrow> takeWhile (\<lambda>x. x \<noteq> c) (a @ c # b) = a"
  by (induction a) auto

lemma Split_head: "hd (Split s c) = takeWhile (\<lambda>x. x \<noteq> c) s"
proof (cases "IndexByte s c")
  case None
  then have "c \<notin> set s"
    by (induction s) (auto split: if_splits)
  then show ?thesis
    by (simp add: Split_absent takeWhile_absent)
next
  case (Some m)
  from IndexByte_Some_iff[OF Some] obtain a b where s: "s = a @ c # b" and a: "c \<notin> set a"
    by blast
  show ?thesis
    unfolding s using a by (simp add: Split_first takeWhile_first)
qed

lemma length_Split: "length (Split s c) = Suc (count_list s c)"
proof (induction s c rule: Split.induct)
  case (1 s sep)
  show ?case
  proof (cases "IndexByte s sep")
    case None
    then have "sep \<notin> set s"
      by (induction s) (auto split: if_splits)
    then show ?thesis
      by (simp add: Split_absent)
  next
    case (Some m)
    from IndexByte_Some_iff[OF Some] have a: "sep \<notin> set (take m s)"
      and s: "s = take m s @ sep # drop (Suc m) s" by auto
    have "count_list s sep = count_list (take m s @ sep # drop (Suc m) s) sep"
      using s by simp
    also have "\<dots> = Suc (count_list (drop (Suc m) s) sep)"
      using a by (simp add: count_list_0_iff)
    finally have c: "count_list s sep = Suc (count_list (drop (Suc m) s) sep)" .
    have "Split s sep = take m s # Split (drop (Suc m) s) sep"
      by (subst Split.simps) (simp add: Some)
    then show ?thesis
      using "1.IH"[OF Some] c by simp
  qed
qed

section \<open>Facts about \<open>parseRemoteURL\<close>\<close>

lemma parse_https_three:
  assumes "CHR ''/'' \<notin> set host" "CHR ''/'' \<notin> set ws" "CHR ''/'' \<notin> set repo"
  shows "parseRemoteURL (''https://'' @ host @ ''/'' @ ws @ ''/'' @ repo) =
         Inr (''https://'' @ host @ ''/'' @ ws @ ''/'' @ TrimSuffix repo ''.git'')"
proof -
  have pre: "HasPrefix (''https://'' @ host @ ''/'' @ ws @ ''/'' @ repo) ''https://''"
    by (rule HasPrefix_append)
  have trim: "TrimPrefix (''https://'' @ host @ ''/'' @ ws @ ''/'' @ repo) ''https://'' = host @ ''/'' @ ws @ ''/'' @ repo"
    by (rule TrimPrefix_append)
  have parts: "Split (host @ ''/'' @ ws @ ''/'' @ repo) CHR ''/'' = [host, ws, repo]"
    using assms by (simp add: Split_first Split_absent)
  show ?thesis
    unfolding parseRemoteURL_def using pre by (simp only: trim parts Let_def if_True) simp
qed

lemma Split_nth0: "Split s c ! 0 = takeWhile (\<lambda>x. x \<noteq> c) s"
  using Split_head[of s c] Split_not_Nil[of s c] by (simp add: hd_conv_nth)

lemma not_https_git: "\<not> HasPrefix (''git@'' @ s) ''https://''"
  by (simp add: HasPrefix_Cons HasPrefix_Nil)

lemma parse_ssh_segment:
  assumes host: "CHR '':'' \<notin> set host"
    and seg: "Split (takeWhile (\<lambda>x. x \<noteq> CHR '':'') path) CHR ''/'' = repoParts"
  shows "parseRemoteURL (''git@'' @ host @ '':'' @ path) =
         (if length repoParts < 2
          then Inl (New (''invalid remote url structure: '' @ ''git@'' @ host @ '':'' @ path))
          else Inr (''https://'' @ host @ ''/'' @ repoParts ! 0 @ ''/'' @ TrimSuffix (repoParts ! 1) ''.git''))"
proof -
  let ?url = "''git@'' @ host @ '':'' @ path"
  have no: "\<not> HasPrefix ?url ''https://''"
    by (rule not_https_git)
  have pre: "HasPrefix ?url ''git@''"
    by (rule HasPrefix_append)
  have trim: "TrimPrefix ?url ''git@'' = host @ '':'' @ path"
    by (rule TrimPrefix_append)
  have parts: "Split (host @ '':'' @ path) CHR '':'' = host # Split path CHR '':''"
    using host by (simp add: Split_first)
  have len: "\<not> length (host # Split path CHR '':'') < 2"
    using Split_not_Nil[of path "CHR '':''"] by (cases "Split path CHR '':''") auto
  have p0: "(host # Split path CHR '':'') ! 0 = host"
    by simp
  have p1: "(host # Split path CHR '':'') ! 1 = takeWhile (\<lambda>x. x \<noteq> CHR '':'') path"
    by (simp add: Split_nth0)
  show ?thesis
    unfolding parseRemoteURL_def using no pre len
    by (simp only: trim parts Let_def if_True if_False p0 p1 seg) simp
qed

lemma parse_ssh_general:
  assumes "CHR '':'' \<notin> set host"
    and "CHR '':'' \<notin> set ws" "CHR ''/'' \<notin> set ws"
    and "CHR '':'' \<notin> set repo" "CHR ''/'' \<notin> set repo"
    and "tail = [] \<or> hd tail \<in> {CHR '':'', CHR ''/''}"
  shows "parseRemoteURL (''git@'' @ host @ '':'' @ ws @ ''/'' @ repo @ tail) =
         Inr (''https://'' @ host @ ''/'' @ ws @ ''/'' @ TrimSuffix repo ''.git'')"
proof -
  have "\<exists>more. Split (takeWhile (\<lambda>x. x \<noteq> CHR '':'') (ws @ ''/'' @ repo @ tail)) CHR ''/'' = ws # repo # more"
  proof (cases tail)
    case Nil
    then show ?thesis
      using assms by (simp add: takeWhile_absent Split_first Split_absent)
  next
    case (Cons t ts)
    with assms(6) consider "t = CHR '':''" | "t = CHR ''/''" by auto
    then show ?thesis
    proof cases
      case 1
      have "takeWhile (\<lambda>x. x \<noteq> CHR '':'') ((ws @ ''/'' @ repo) @ CHR '':'' # ts) = ws @ ''/'' @ repo"
        using assms by (intro takeWhile_first) simp
      then show ?thesis
        using assms Cons 1 by (simp add: Split_first Split_absent)
    next
      case 2
      have "takeWhile (\<lambda>x. x \<noteq> CHR '':'') ((ws @ ''/'' @ repo @ ''/'') @ ts) =
            (ws @ ''/'' @ repo @ ''/'') @ takeWhile (\<lambda>x. x \<noteq> CHR '':'') ts"
        using assms by (intro takeWhile_append2) auto
      then show ?thesis
        using assms Cons 2 by (simp add: Split_first)
    qed
  qed
  then obtain more where
    seg: "Split (takeWhile (\<lambda>x. x \<noteq> CHR '':'') (ws @ ''/'' @ repo @ tail)) CHR ''/'' = ws # repo # more" ..
  show ?thesis
    using parse_ssh_segment[OF assms(1) seg] by simp
qed

lemma parse_unsupported:
  "\<not> HasPrefix url ''https://'' \<Longrightarrow> \<not> HasPrefix url ''git@'' \<Longrightarrow>
   parseRemoteURL url = Inl (New (''unsupported remote url structure: '' @ url))"
  by (simp add: parseRemoteURL_def)

lemma parse_https_short:
  assumes "count_list rest CHR ''/'' < 2"
  shows "parseRemoteURL (''https://'' @ rest) = Inl (New (''invalid remote url structure: '' @ ''https://'' @ rest))"
proof -
  have pre: "HasPrefix (''https://'' @ rest) ''https://''"
    by (rule HasPrefix_append)
  have trim: "TrimPrefix (''https://'' @ rest) ''https://'' = rest"
    by (rule TrimPrefix_append)
  have len: "length (Split rest CHR ''/'') < 3"
    using assms by (simp add: length_Split)
  show ?thesis
    unfolding parseRemoteURL_def using pre len by (simp only: trim Let_def if_True)
qed

lemma parse_ssh_no_colon:
  assumes "CHR '':'' \<notin> set rest"
  shows "parseRemoteURL (''git@'' @ rest) = Inl (New (''invalid remote url structure: '' @ ''git@'' @ rest))"
proof -
  have no: "\<not> HasPrefix (''git@'' @ rest) ''https://''"
    by (rule not_https_git)
  have pre: "HasPrefix (''git@'' @ rest) ''git@''"
    by (rule HasPrefix_append)
  have trim: "TrimPrefix (''git@'' @ rest) ''git@'' = rest"
    by (rule TrimPrefix_append)
  have len: "length (Split rest CHR '':'') < 2"
    using assms by (simp add: Split_absent)
  show ?thesis
    unfolding parseRemoteURL_def using no pre len by (simp only: trim Let_def if_True if_False)
qed

lemma parse_ssh_no_slash:
  assumes "CHR '':'' \<notin> set host" "CHR ''/'' \<notin> set path"
  shows "parseRemoteURL (''git@'' @ host @ '':'' @ path) = Inl (New (''invalid remote url structure: '' @ ''git@'' @ host @ '':'' @ path))"
proof -
  have "CHR ''/'' \<notin> set (takeWhile (\<lambda>x. x \<noteq> CHR '':'') path)"
    using assms(2) by (auto dest: set_takeWhileD)
  then have seg: "Split (takeWhile (\<lambda>x. x \<noteq> CHR '':'') path) CHR ''/'' = [takeWhile (\<lambda>x. x \<noteq> CHR '':'') path]"
    by (rule Split_absent)
  show ?thesis
    using parse_ssh_segment[OF assms(1) seg] by simp
qed

section \<open>Facts about the run\<close>

lemma newChange_long:
  "7 \<le> length (Hash c) \<Longrightarrow>
   newChange useURL remoteURL c =
     Inr \<lparr>SHA = take 7 (Hash c),
          Title = takeWhile (\<lambda>x. x \<noteq> newline) (Message c),
          URL = (if useURL then remoteURL @ ''/commits/'' @ Hash c else [])\<rparr>"
  by (simp add: newChange_def Let_def Split_nth0)

lemma newChange_short:
  "length (Hash c) < 7 \<Longrightarrow> newChange useURL remoteURL c = Inl (Panic ''slice bounds out of range [:7]'')"
  by (simp add: newChange_def Let_def)

lemma newChange_Inr_iff:
  "(newChange useURL remoteURL c = Inr ch) =
   (7 \<le> length (Hash c) \<and>
    ch = \<lparr>SHA = take 7 (Hash c),
          Title = takeWhile (\<lambda>x. x \<noteq> newline) (Message c),
          URL = (if useURL then remoteURL @ ''/commits/'' @ Hash c else [])\<rparr>)"
  by (cases "7 \<le> length (Hash c)") (auto simp: newChange_long newChange_short)

lemma forEach_result:
  "forEach cs f (logCallback useURL remoteURL) rel = Inr (rel', e) \<Longrightarrow>
   e = f \<and> (\<exists>chs. list_all2 (\<lambda>ch c. newChange useURL remoteURL c = Inr ch) chs cs
                \<and> rel' = rel\<lparr>Changes := Changes rel @ chs\<rparr>)"
proof (induction cs arbitrary: rel)
  case Nil
  then show ?case by simp
next
  case (Cons c cs)
  have "\<exists>ch. newChange useURL remoteURL c = Inr ch"
  proof (cases "newChange useURL remoteURL c")
    case (Inl p)
    then have "logCallback useURL remoteURL rel c = Inl p"
      by (simp add: logCallback_def)
    with Cons.prems show ?thesis by simp
  next
    case (Inr ch)
    then show ?thesis by blast
  qed
  then obtain ch where ch: "newChange useURL remoteURL c = Inr ch" ..
  then have "logCallback useURL remoteURL rel c = Inr (rel\<lparr>Changes := Changes rel @ [ch]\<rparr>)"
    by (simp add: logCallback_def)
  with Cons.prems
  have rest: "forEach cs f (logCallback useURL remoteURL) (rel\<lparr>Changes := Changes rel @ [ch]\<rparr>) = Inr (rel', e)"
    by simp
  from Cons.IH[OF rest] obtain chs where
    "e = f" and all: "list_all2 (\<lambda>ch c. newChange useURL remoteURL c = Inr ch) chs cs"
    and rel': "rel' = rel\<lparr>Changes := Changes rel @ [ch]\<rparr>\<lparr>Changes := Changes (rel\<lparr>Changes := Changes rel @ [ch]\<rparr>) @ chs\<rparr>"
    by blast
  have "list_all2 (\<lambda>ch c. newChange useURL remoteURL c = Inr ch) (ch # chs) (c # cs)"
    using ch all by simp
  moreover have "rel' = rel\<lparr>Changes := Changes rel @ (ch # chs)\<rparr>"
    using rel' by simp
  ultimately show ?case
    using \<open>e = f\<close> by blast
qed

lemma forEach_total:
  "\<forall>c\<in>set cs. 7 \<le> length (Hash c) \<Longrightarrow>
   \<exists>chs. list_all2 (\<lambda>ch c. newChange useURL remoteURL c = Inr ch) chs cs
       \<and> forEach cs f (logCallback useURL remoteURL) rel = Inr (rel\<lparr>Changes := Changes rel @ chs\<rparr>, f)"
proof (induction cs arbitrary: rel)
  case Nil
  then show ?case by simp
next
  case (Cons c cs)
  let ?ch = "\<lparr>SHA = take 7 (Hash c),
          Title = takeWhile (\<lambda>x. x \<noteq> newline) (Message c),
          URL = (if useURL then remoteURL @ ''/commits/'' @ Hash c else [])\<rparr>"
  have ch: "newChange useURL remoteURL c = Inr ?ch"
    using Cons.prems by (simp add: newChange_long)
  from Cons.prems have "\<forall>c\<in>set cs. 7 \<le> length (Hash c)"
    by simp
  from Cons.IH[OF this, of "rel\<lparr>Changes := Changes rel @ [?ch]\<rparr>"] obtain chs where
    all: "list_all2 (\<lambda>ch c. newChange useURL remoteURL c = Inr ch) chs cs"
    and run: "forEach cs f (logCallback useURL remoteURL) (rel\<lparr>Changes := Changes rel @ [?ch]\<rparr>)
              = Inr (rel\<lparr>Changes := Changes rel @ ?ch # chs\<rparr>, f)"
    by auto
  have "list_all2 (\<lambda>ch c. newChange useURL remoteURL c = Inr ch) (?ch # chs) (c # cs)"
    using ch all by simp
  moreover have "logCallback useURL remoteURL rel c = Inr (rel\<lparr>Changes := Changes rel @ [?ch]\<rparr>)"
    using ch by (simp add: logCallback_def)
  then have "forEach (c # cs) f (logCallback useURL remoteURL) rel = Inr (rel\<lparr>Changes := Changes rel @ ?ch # chs\<rparr>, f)"
    using run by simp
  ultimately show ?case
    by blast
qed

lemma originURL_Inr:
  "(originURL repo out = Inr (useURL, remoteURL)) =
   ((\<exists>err. Remote repo ''origin'' = Inl err) \<and> \<not> useURL \<and> remoteURL = []
    \<or> (\<exists>url urls. Remote repo ''origin'' = Inr (url # urls) \<and> parseRemoteURL url = Inr remoteURL) \<and> useURL)"
  by (auto simp: originURL_def split: sum.splits list.splits)

lemma buildRelease_Inr:
  "(buildRelease w out = Inr release) =
   (\<exists>version ignored repo useURL remoteURL ref iter e.
      args w = version # ignored \<and> PlainOpen w (workdir w) = Inr repo
      \<and> originURL repo out = Inr (useURL, remoteURL)
      \<and> Head repo = Inr ref \<and> Log repo ref = Inr iter
      \<and> ForEach iter (logCallback useURL remoteURL)
            \<lparr>Version = version, Date = Format (Now w), Changes = []\<rparr> = Inr (release, e))"
  by (auto simp: buildRelease_def Let_def split: list.splits sum.splits prod.splits)

section \<open>Facts about the date\<close>

lemma digit_char: "d < 10 \<Longrightarrow> char_of (48 + d :: nat) \<in> set ''0123456789''"
proof -
  assume "d < 10"
  then have "d \<in> set [0..<10]"
    by simp
  moreover have "[0..<10] = [0, 1, 2, 3, 4, 5, 6, 7, 8, 9 :: nat]"
    by (simp add: upt_rec)
  ultimately have "d \<in> set [0, 1, 2, 3, 4, 5, 6, 7, 8, 9 :: nat]"
    by simp
  moreover have "\<forall>k\<in>set [0, 1, 2, 3, 4, 5, 6, 7, 8, 9 :: nat]. char_of (48 + k) \<in> set ''0123456789''"
    by code_simp
  ultimately show ?thesis
    by blast
qed

lemma decimal_digits: "set (decimal n) \<subseteq> set ''0123456789''"
proof (induction n rule: decimal.induct)
  case (1 n)
  show ?case
  proof (cases "n < 10")
    case True
    then show ?thesis
      using digit_char[of n] by (subst decimal.simps) simp
  next
    case False
    have "n mod 10 < 10" by simp
    from digit_char[OF this] "1.IH"[OF False] False show ?thesis
      by (subst decimal.simps) simp
  qed
qed

lemma length_decimal_1: "n < 10 \<Longrightarrow> length (decimal n) = 1"
  by (subst decimal.simps) simp

lemma length_decimal_2: "n < 100 \<Longrightarrow> length (decimal n) \<le> 2"
  by (subst decimal.simps) (simp add: length_decimal_1)

lemma length_decimal_3: "n < 1000 \<Longrightarrow> length (decimal n) \<le> 3"
  by (subst decimal.simps) (use length_decimal_2[of "n div 10"] in simp)

lemma length_decimal_4: "n < 10000 \<Longrightarrow> length (decimal n) \<le> 4"
  by (subst decimal.simps) (use length_decimal_3[of "n div 10"] in simp)

lemma length_appendInt: "length (decimal x) \<le> width \<Longrightarrow> length (appendInt x width) = width"
  by (simp add: appendInt_def)

lemma appendInt_digits: "set (appendInt x width) \<subseteq> set ''0123456789''"
proof -
  have "set (replicate (width - length (decimal x)) CHR ''0'') \<subseteq> set ''0123456789''"
    by (simp add: set_replicate_conv_if)
  with decimal_digits[of x] show ?thesis
    unfolding appendInt_def set_append by blast
qed

lemma Format_shape:
  assumes "Year t \<le> 9999" "Month t \<le> 12" "Day t \<le> 31"
  shows "\<exists>y m d. Format t = y @ ''-'' @ m @ ''-'' @ d \<and> length y = 4 \<and> length m = 2 \<and> length d = 2
           \<and> set (y @ m @ d) \<subseteq> set ''0123456789''"
proof -
  have y: "length (appendInt (Year t) 4) = 4"
    using assms(1) by (intro length_appendInt length_decimal_4) simp
  have m: "length (appendInt (Month t) 2) = 2"
    using assms(2) by (intro length_appendInt length_decimal_2) simp
  have d: "length (appendInt (Day t) 2) = 2"
    using assms(3) by (intro length_appendInt length_decimal_2) simp
  have "set (appendInt (Year t) 4 @ appendInt (Month t) 2 @ appendInt (Day t) 2) \<subseteq> set ''0123456789''"
    unfolding set_append using appendInt_digits by blast
  with y m d show ?thesis
    unfolding Format_def by blast
qed

section \<open>The clock in the run\<close>

lemma logCallback_Date:
  "logCallback useURL remoteURL (rel\<lparr>Date := d\<rparr>) c =
   (case logCallback useURL remoteURL rel c of Inl p \<Rightarrow> Inl p | Inr rel' \<Rightarrow> Inr (rel'\<lparr>Date := d\<rparr>))"
  by (simp add: logCallback_def split: sum.splits)

lemma forEach_Date:
  "forEach cs f (logCallback useURL remoteURL) (rel\<lparr>Date := d\<rparr>) =
   (case forEach cs f (logCallback useURL remoteURL) rel of
      Inl p \<Rightarrow> Inl p
    | Inr (rel', e) \<Rightarrow> Inr (rel'\<lparr>Date := d\<rparr>, e))"
proof (induction cs arbitrary: rel)
  case Nil
  show ?case by simp
next
  case (Cons c cs)
  show ?case
  proof (cases "logCallback useURL remoteURL rel c")
    case (Inl p)
    then show ?thesis
      by (simp add: logCallback_Date)
  next
    case (Inr rel1)
    then show ?thesis
      by (simp add: logCallback_Date Cons.IH)
  qed
qed

lemma buildRelease_Now:
  "buildRelease (w\<lparr>Now := t\<rparr>) out =
   (case buildRelease w out of Inl stop \<Rightarrow> Inl stop | Inr release \<Rightarrow> Inr (release\<lparr>Date := Format t\<rparr>))"
proof -
  have init: "\<And>version. \<lparr>Version = version, Date = Format t, Changes = []\<rparr> =
      \<lparr>Version = version, Date = Format (Now w), Changes = []\<rparr>\<lparr>Date := Format t\<rparr>"
    by simp
  show ?thesis
    unfolding buildRelease_def workdir_def ForEach_def Let_def
    by (simp add: init forEach_Date del: Release.update_convs
        split: list.splits sum.splits prod.splits)
qed

lemma Execute_Now:
  "Execute (w\<lparr>Now := t\<rparr>) =
   (case buildRelease w \<lparr>stdout = [], stderr = []\<rparr> of
      Inl stop \<Rightarrow> Execute w
    | Inr release \<Rightarrow> (\<lparr>stdout = render (release\<lparr>Date := Format t\<rparr>), stderr = []\<rparr>, None))"
proof (cases "args w")
  case Nil
  then show ?thesis
    by (simp add: Execute_def rootCmd_Execute_def buildRelease_def)
next
  case (Cons version ignored)
  then show ?thesis
    by (simp add: Execute_def rootCmd_Execute_def Run_def buildRelease_Now bail_def
        split: sum.splits prod.splits)
qed

section \<open>The claims\<close>

text \<open>
  C1.  An invocation that fails in the validation of the arguments, in opening the
  repository, in parsing the URL of origin, in resolving HEAD or in setting up the log ends
  with exit status 1, after \<^verbatim>\<open>bail\<close> has written a line feed, the text
  \<^verbatim>\<open>error: <message>\<close> in bold red and a line feed to standard output.  The message is
  the error's own text, behind the context it was wrapped with.  The program writes nothing
  to standard error; on an empty argument list standard error holds what the flag parser
  printed by itself.
\<close>

theorem Execute_failure:
  "(args w = [] \<longrightarrow>
      Execute w = (\<lparr>stdout = bail_format ''error: requires at least 1 arg(s), only received 0'',
                    stderr = usage w\<rparr>, Some (Exit 1)))
   \<and> (args w \<noteq> [] \<and> PlainOpen w (workdir w) = Inl e1 \<longrightarrow>
      Execute w = (\<lparr>stdout = bail_format (''error: failed to open git repository: '' @ Error e1),
                    stderr = []\<rparr>, Some (Exit 1)))
   \<and> (args w \<noteq> [] \<and> PlainOpen w (workdir w) = Inr repo
        \<and> Remote repo ''origin'' = Inr (url # urls) \<and> parseRemoteURL url = Inl e2 \<longrightarrow>
      Execute w = (\<lparr>stdout = bail_format (''error: '' @ Error e2), stderr = []\<rparr>, Some (Exit 1)))
   \<and> (args w \<noteq> [] \<and> PlainOpen w (workdir w) = Inr repo
        \<and> originURL repo \<lparr>stdout = [], stderr = []\<rparr> = Inr link \<and> Head repo = Inl e3 \<longrightarrow>
      Execute w = (\<lparr>stdout = bail_format (''error: failed to get head ref: '' @ Error e3),
                    stderr = []\<rparr>, Some (Exit 1)))
   \<and> (args w \<noteq> [] \<and> PlainOpen w (workdir w) = Inr repo
        \<and> originURL repo \<lparr>stdout = [], stderr = []\<rparr> = Inr link
        \<and> Head repo = Inr ref \<and> Log repo ref = Inl e4 \<longrightarrow>
      Execute w = (\<lparr>stdout = bail_format (''error: failed to get commit log: '' @ Error e4),
                    stderr = []\<rparr>, Some (Exit 1)))"
proof (intro conjI impI)
  assume "args w = []"
  then show "Execute w = (\<lparr>stdout = bail_format ''error: requires at least 1 arg(s), only received 0'',
                    stderr = usage w\<rparr>, Some (Exit 1))"
    by (simp add: Execute_def rootCmd_Execute_def bail_def bail_exit_def)
next
  assume "args w \<noteq> [] \<and> PlainOpen w (workdir w) = Inl e1"
  then show "Execute w = (\<lparr>stdout = bail_format (''error: failed to open git repository: '' @ Error e1),
                    stderr = []\<rparr>, Some (Exit 1))"
    by (cases "args w")
      (simp_all add: Execute_def rootCmd_Execute_def Run_def buildRelease_def bail_exit_def)
next
  assume "args w \<noteq> [] \<and> PlainOpen w (workdir w) = Inr repo
        \<and> Remote repo ''origin'' = Inr (url # urls) \<and> parseRemoteURL url = Inl e2"
  then show "Execute w = (\<lparr>stdout = bail_format (''error: '' @ Error e2), stderr = []\<rparr>, Some (Exit 1))"
    by (cases "args w")
      (simp_all add: Execute_def rootCmd_Execute_def Run_def buildRelease_def originURL_def
        bail_exit_def)
next
  assume "args w \<noteq> [] \<and> PlainOpen w (workdir w) = Inr repo
        \<and> originURL repo \<lparr>stdout = [], stderr = []\<rparr> = Inr link \<and> Head repo = Inl e3"
  then show "Execute w = (\<lparr>stdout = bail_format (''error: failed to get head ref: '' @ Error e3),
                    stderr = []\<rparr>, Some (Exit 1))"
    by (cases "args w"; cases link)
      (simp_all add: Execute_def rootCmd_Execute_def Run_def buildRelease_def bail_exit_def)
next
  assume "args w \<noteq> [] \<and> PlainOpen w (workdir w) = Inr repo
        \<and> originURL repo \<lparr>stdout = [], stderr = []\<rparr> = Inr link
        \<and> Head repo = Inr ref \<and> Log repo ref = Inl e4"
  then show "Execute w = (\<lparr>stdout = bail_format (''error: failed to get commit log: '' @ Error e4),
                    stderr = []\<rparr>, Some (Exit 1))"
    by (cases "args w"; cases link)
      (simp_all add: Execute_def rootCmd_Execute_def Run_def buildRelease_def bail_exit_def)
qed

theorem Execute_failure_witness:
  "args world_no_args = []
   \<and> Execute world_no_args =
       (\<lparr>stdout = bail_format ''error: requires at least 1 arg(s), only received 0'',
         stderr = ''Usage: sumit [flags]''\<rparr>, Some (Exit 1))
   \<and> args world_no_repo \<noteq> []
   \<and> PlainOpen world_no_repo (workdir world_no_repo) = Inl (New ''repository does not exist'')
   \<and> Execute world_no_repo =
       (\<lparr>stdout = bail_format ''error: failed to open git repository: repository does not exist'',
         stderr = []\<rparr>, Some (Exit 1))
   \<and> PlainOpen (world repo_svn) (workdir (world repo_svn)) = Inr repo_svn
   \<and> Remote repo_svn ''origin'' = Inr [''svn://host/ws/repo'']
   \<and> Execute (world repo_svn) =
       (\<lparr>stdout = bail_format ''error: unsupported remote url structure: svn://host/ws/repo'',
         stderr = []\<rparr>, Some (Exit 1))
   \<and> PlainOpen (world repo_unborn) (workdir (world repo_unborn)) = Inr repo_unborn
   \<and> Head repo_unborn = Inl (New ''reference not found'')
   \<and> Execute (world repo_unborn) =
       (\<lparr>stdout = bail_format ''error: failed to get head ref: reference not found'',
         stderr = []\<rparr>, Some (Exit 1))
   \<and> PlainOpen (world repo_refused) (workdir (world repo_refused)) = Inr repo_refused
   \<and> Log repo_refused (Hash commit1) = Inl (New ''object not found'')
   \<and> Execute (world repo_refused) =
       (\<lparr>stdout = bail_format ''error: failed to get commit log: object not found'',
         stderr = []\<rparr>, Some (Exit 1))"
proof -
  have a: "args world_no_args = []"
    by (simp add: world_no_args_def)
  have b: "args world_no_repo \<noteq> []"
    "PlainOpen world_no_repo (workdir world_no_repo) = Inl (New ''repository does not exist'')"
    by (simp_all add: world_no_repo_def open_none_def)
  have c: "args (world repo_svn) \<noteq> []"
    "PlainOpen (world repo_svn) (workdir (world repo_svn)) = Inr repo_svn"
    "Remote repo_svn ''origin'' = Inr [''svn://host/ws/repo'']"
    "parseRemoteURL ''svn://host/ws/repo'' = Inl (New ''unsupported remote url structure: svn://host/ws/repo'')"
    by (simp_all add: world_def workdir_def open_here_def repo_svn_def remote_svn_def
        parseRemoteURL_def HasPrefix_def)
  have d: "args (world repo_unborn) \<noteq> []"
    "PlainOpen (world repo_unborn) (workdir (world repo_unborn)) = Inr repo_unborn"
    "originURL repo_unborn \<lparr>stdout = [], stderr = []\<rparr> = Inr (True, ''https://github.com/acme/widget'')"
    "Head repo_unborn = Inl (New ''reference not found'')"
    by (simp_all add: world_def workdir_def open_here_def repo_unborn_def remote_ssh_def
        originURL_def parseRemoteURL_def HasPrefix_def TrimPrefix_def HasSuffix_def
        TrimSuffix_def Split.simps)
  have e: "args (world repo_refused) \<noteq> []"
    "PlainOpen (world repo_refused) (workdir (world repo_refused)) = Inr repo_refused"
    "originURL repo_refused \<lparr>stdout = [], stderr = []\<rparr> = Inr (True, ''https://github.com/acme/widget'')"
    "Head repo_refused = Inr (Hash commit1)"
    "Log repo_refused (Hash commit1) = Inl (New ''object not found'')"
    by (simp_all add: world_def workdir_def open_here_def repo_refused_def remote_ssh_def
        log_refused_def originURL_def parseRemoteURL_def HasPrefix_def TrimPrefix_def
        HasSuffix_def TrimSuffix_def Split.simps)
  have u: "usage world_no_args = ''Usage: sumit [flags]''"
    by (simp add: world_no_args_def)
  from Execute_failure[of world_no_args] a u
  have 1: "Execute world_no_args =
       (\<lparr>stdout = bail_format ''error: requires at least 1 arg(s), only received 0'',
         stderr = ''Usage: sumit [flags]''\<rparr>, Some (Exit 1))"
    by simp
  from Execute_failure[of world_no_repo "New ''repository does not exist''"] b
  have 2: "Execute world_no_repo =
       (\<lparr>stdout = bail_format ''error: failed to open git repository: repository does not exist'',
         stderr = []\<rparr>, Some (Exit 1))"
    by simp
  from Execute_failure[of "world repo_svn" _ repo_svn "''svn://host/ws/repo''" "[]"
      "New ''unsupported remote url structure: svn://host/ws/repo''"] c
  have 3: "Execute (world repo_svn) =
       (\<lparr>stdout = bail_format ''error: unsupported remote url structure: svn://host/ws/repo'',
         stderr = []\<rparr>, Some (Exit 1))"
    by simp
  from Execute_failure[of "world repo_unborn" _ repo_unborn _ _ _
      "(True, ''https://github.com/acme/widget'')" "New ''reference not found''"] d
  have 4: "Execute (world repo_unborn) =
       (\<lparr>stdout = bail_format ''error: failed to get head ref: reference not found'',
         stderr = []\<rparr>, Some (Exit 1))"
    by simp
  from Execute_failure[of "world repo_refused" _ repo_refused _ _ _
      "(True, ''https://github.com/acme/widget'')" _ "Hash commit1" "New ''object not found''"] e
  have 5: "Execute (world repo_refused) =
       (\<lparr>stdout = bail_format ''error: failed to get commit log: object not found'',
         stderr = []\<rparr>, Some (Exit 1))"
    by simp
  from a b c(2,3) d(2,4) e(2,5) 1 2 3 4 5 show ?thesis
    by simp
qed

text \<open>
  The specification sends the error line to standard error.  When the repository cannot be
  opened, the line is on standard output and standard error is empty.
\<close>

theorem Execute_failure_counterexample:
  "PlainOpen world_no_repo (workdir world_no_repo) = Inl (New ''repository does not exist'')
   \<and> stdout (fst (Execute world_no_repo)) =
       bail_format ''error: failed to open git repository: repository does not exist''
   \<and> stderr (fst (Execute world_no_repo)) = []
   \<and> snd (Execute world_no_repo) = Some (Exit 1)"
  by (simp add: Execute_def rootCmd_Execute_def Run_def buildRelease_def bail_exit_def
      world_no_repo_def workdir_def open_none_def)

text \<open>
  C2.  The specification has a failure of the log traversal reach \<^verbatim>\<open>bail\<close> with no
  changelog written.  The program does otherwise: for an iterator that yields one commit and
  then fails, the error that \<^verbatim>\<open>ForEach\<close> returns is dropped, the change collected so far is
  rendered to standard output, and \<^verbatim>\<open>Execute\<close> returns normally.
\<close>

theorem Execute_log_failure_ignored:
  "Log repo_broken (Hash commit1) =
     Inr \<lparr>commits = [commit1], failure = Some (New ''object not found'')\<rparr>
   \<and> Execute (world repo_broken) =
       (\<lparr>stdout = [newline] @ ''## [1.2.0] - 2026-03-09'' @ [newline, newline] @
                   ''- Fix bug [abcdef1]'' @ [newline],
         stderr = []\<rparr>, None)"
  by code_simp

text \<open>
  C3.  In \<^verbatim>\<open>https://<host>/<workspace>/<repo>[.git]\<close> the suffix \<^verbatim>\<open>.git\<close> is optional and
  repo is the name without it.  With no slash inside host, workspace and repo, the input
  \<^verbatim>\<open>https://<host>/<workspace>/<repo>.git\<close> parses to \<^verbatim>\<open>https://<host>/<workspace>/<repo>\<close>,
  and so does the input \<^verbatim>\<open>https://<host>/<workspace>/<repo>\<close> for a repo that does not
  itself end in \<^verbatim>\<open>.git\<close>.  In general the third segment of the input is returned less
  one trailing \<^verbatim>\<open>.git\<close>.  None of the three has to be non-empty.
\<close>

theorem parseRemoteURL_https:
  assumes "CHR ''/'' \<notin> set host" and "CHR ''/'' \<notin> set ws" and "CHR ''/'' \<notin> set repo"
  shows "parseRemoteURL (''https://'' @ host @ ''/'' @ ws @ ''/'' @ repo @ ''.git'') =
           Inr (''https://'' @ host @ ''/'' @ ws @ ''/'' @ repo)
       \<and> (\<not> HasSuffix repo ''.git'' \<longrightarrow>
            parseRemoteURL (''https://'' @ host @ ''/'' @ ws @ ''/'' @ repo) =
              Inr (''https://'' @ host @ ''/'' @ ws @ ''/'' @ repo))
       \<and> parseRemoteURL (''https://'' @ host @ ''/'' @ ws @ ''/'' @ repo) =
           Inr (''https://'' @ host @ ''/'' @ ws @ ''/'' @ TrimSuffix repo ''.git'')"
proof (intro conjI impI)
  have "CHR ''/'' \<notin> set (repo @ ''.git'')"
    using assms(3) by simp
  from parse_https_three[OF assms(1) assms(2) this]
  show "parseRemoteURL (''https://'' @ host @ ''/'' @ ws @ ''/'' @ repo @ ''.git'') =
        Inr (''https://'' @ host @ ''/'' @ ws @ ''/'' @ repo)"
    by (simp add: TrimSuffix_append)
next
  show segment: "parseRemoteURL (''https://'' @ host @ ''/'' @ ws @ ''/'' @ repo) =
                 Inr (''https://'' @ host @ ''/'' @ ws @ ''/'' @ TrimSuffix repo ''.git'')"
    by (rule parse_https_three[OF assms])
  assume "\<not> HasSuffix repo ''.git''"
  then have "TrimSuffix repo ''.git'' = repo"
    by (rule TrimSuffix_id)
  with segment show "parseRemoteURL (''https://'' @ host @ ''/'' @ ws @ ''/'' @ repo) =
                     Inr (''https://'' @ host @ ''/'' @ ws @ ''/'' @ repo)"
    by simp
qed

theorem parseRemoteURL_https_witness:
  "CHR ''/'' \<notin> set ''github.com'' \<and> CHR ''/'' \<notin> set ''acme'' \<and> CHR ''/'' \<notin> set ''widget''
   \<and> \<not> HasSuffix ''widget'' ''.git''
   \<and> parseRemoteURL ''https://github.com/acme/widget.git'' = Inr ''https://github.com/acme/widget''
   \<and> parseRemoteURL ''https://github.com/acme/widget'' = Inr ''https://github.com/acme/widget''"
  using parseRemoteURL_https[of "''github.com''" "''acme''" "''widget''"]
  by (simp add: HasSuffix_def)

text \<open>
  C4.  An SSH remote is cut at every colon, not only at the first: the host is the text
  before the first colon, and the path is the text between the first colon and the next one
  (or the end).  The path is cut at every slash, and its first two segments are workspace
  and repo, the repo less one trailing \<^verbatim>\<open>.git\<close>.  So
  \<^verbatim>\<open>git@<host>:<workspace>/<repo><tail>\<close> parses to \<^verbatim>\<open>https://<host>/<workspace>/<repo>\<close>
  when host has no colon, workspace and repo have neither colon nor slash, and the tail is
  empty or starts with a colon or a slash.  In particular \<^verbatim>\<open>git@<host>:<ws>/<repo>.git\<close>
  yields \<^verbatim>\<open>https://<host>/<ws>/<repo>\<close>, and so does \<^verbatim>\<open>git@<host>:<ws>/<repo>\<close> exactly when
  repo does not end in \<^verbatim>\<open>.git\<close>.
\<close>

theorem parseRemoteURL_ssh:
  assumes "CHR '':'' \<notin> set host"
    and "CHR '':'' \<notin> set ws" and "CHR ''/'' \<notin> set ws"
    and "CHR '':'' \<notin> set repo" and "CHR ''/'' \<notin> set repo"
    and "tail = [] \<or> hd tail \<in> {CHR '':'', CHR ''/''}"
  shows "parseRemoteURL (''git@'' @ host @ '':'' @ ws @ ''/'' @ repo @ tail) =
           Inr (''https://'' @ host @ ''/'' @ ws @ ''/'' @ TrimSuffix repo ''.git'')
       \<and> parseRemoteURL (''git@'' @ host @ '':'' @ ws @ ''/'' @ repo @ ''.git'') =
           Inr (''https://'' @ host @ ''/'' @ ws @ ''/'' @ repo)
       \<and> ((parseRemoteURL (''git@'' @ host @ '':'' @ ws @ ''/'' @ repo) =
             Inr (''https://'' @ host @ ''/'' @ ws @ ''/'' @ repo))
          = (\<not> HasSuffix repo ''.git''))"
proof (intro conjI)
  show "parseRemoteURL (''git@'' @ host @ '':'' @ ws @ ''/'' @ repo @ tail) =
        Inr (''https://'' @ host @ ''/'' @ ws @ ''/'' @ TrimSuffix repo ''.git'')"
    by (rule parse_ssh_general[OF assms])
next
  have "CHR '':'' \<notin> set (repo @ ''.git'')" and "CHR ''/'' \<notin> set (repo @ ''.git'')"
    using assms(4,5) by simp_all
  from parse_ssh_general[OF assms(1,2,3) this, of "[]"]
  show "parseRemoteURL (''git@'' @ host @ '':'' @ ws @ ''/'' @ repo @ ''.git'') =
        Inr (''https://'' @ host @ ''/'' @ ws @ ''/'' @ repo)"
    by (simp add: TrimSuffix_append)
next
  have bare: "parseRemoteURL (''git@'' @ host @ '':'' @ ws @ ''/'' @ repo) =
              Inr (''https://'' @ host @ ''/'' @ ws @ ''/'' @ TrimSuffix repo ''.git'')"
    using parse_ssh_general[OF assms(1,2,3,4,5), of "[]"] by simp
  have "(TrimSuffix repo ''.git'' = repo) = (\<not> HasSuffix repo ''.git'')"
    by (auto simp: TrimSuffix_def HasSuffix_def)
  then show "(parseRemoteURL (''git@'' @ host @ '':'' @ ws @ ''/'' @ repo) =
              Inr (''https://'' @ host @ ''/'' @ ws @ ''/'' @ repo))
             = (\<not> HasSuffix repo ''.git'')"
    unfolding bare by simp
qed

theorem parseRemoteURL_ssh_witness:
  "CHR '':'' \<notin> set ''github.com''
   \<and> CHR '':'' \<notin> set ''acme'' \<and> CHR ''/'' \<notin> set ''acme''
   \<and> CHR '':'' \<notin> set ''widget'' \<and> CHR ''/'' \<notin> set ''widget''
   \<and> ('':x/y'' = [] \<or> hd '':x/y'' \<in> {CHR '':'', CHR ''/''})
   \<and> parseRemoteURL ''git@github.com:acme/widget:x/y'' = Inr ''https://github.com/acme/widget''
   \<and> parseRemoteURL ''git@github.com:acme/widget.git'' = Inr ''https://github.com/acme/widget''
   \<and> parseRemoteURL ''git@github.com:acme/widget'' = Inr ''https://github.com/acme/widget''"
  using parseRemoteURL_ssh[of "''github.com''" "''acme''" "''widget''" "'':x/y''"]
  by (simp add: TrimSuffix_def HasSuffix_def)

text \<open>
  The claim as the specification words it cuts at the first colon only, which makes
  \<^verbatim>\<open>ws/re:po\<close> the path of \<^verbatim>\<open>git@host:ws/re:po\<close> and \<^verbatim>\<open>re:po\<close> its repo.  The program
  returns \<^verbatim>\<open>https://host/ws/re\<close>.
\<close>

theorem parseRemoteURL_ssh_counterexample:
  "parseRemoteURL (''git@'' @ ''host'' @ '':'' @ ''ws'' @ ''/'' @ ''re:po'') = Inr ''https://host/ws/re''
   \<and> parseRemoteURL (''git@'' @ ''host'' @ '':'' @ ''ws'' @ ''/'' @ ''re:po'')
       \<noteq> Inr (''https://'' @ ''host'' @ ''/'' @ ''ws'' @ ''/'' @ ''re:po'')"
  by (simp add: parseRemoteURL_def HasPrefix_def TrimPrefix_def HasSuffix_def TrimSuffix_def
      Split.simps)

text \<open>
  C5.  A URL that starts with neither \<^verbatim>\<open>https://\<close> nor \<^verbatim>\<open>git@\<close> fails with the
  unsupported-structure error.  The invalid-structure error is returned for
  \<^verbatim>\<open>https://\<close> followed by fewer than three segments (fewer than two slashes), for
  \<^verbatim>\<open>git@\<close> followed by a text without a colon, and for \<^verbatim>\<open>git@<host>:<path>\<close> whose path
  has fewer than two segments (no slash).
\<close>

theorem parseRemoteURL_errors:
  "(\<not> HasPrefix url ''https://'' \<and> \<not> HasPrefix url ''git@'' \<longrightarrow>
      parseRemoteURL url = Inl (New (''unsupported remote url structure: '' @ url)))
   \<and> (count_list rest CHR ''/'' < 2 \<longrightarrow>
      parseRemoteURL (''https://'' @ rest) =
        Inl (New (''invalid remote url structure: '' @ ''https://'' @ rest)))
   \<and> (CHR '':'' \<notin> set rest' \<longrightarrow>
      parseRemoteURL (''git@'' @ rest') =
        Inl (New (''invalid remote url structure: '' @ ''git@'' @ rest')))
   \<and> (CHR '':'' \<notin> set host \<and> CHR ''/'' \<notin> set path \<longrightarrow>
      parseRemoteURL (''git@'' @ host @ '':'' @ path) =
        Inl (New (''invalid remote url structure: '' @ ''git@'' @ host @ '':'' @ path)))"
  using parse_unsupported[of url] parse_https_short[of rest] parse_ssh_no_colon[of rest']
    parse_ssh_no_slash[of host path]
  by blast

theorem parseRemoteURL_errors_witness:
  "\<not> HasPrefix ''ssh://host/ws/repo'' ''https://'' \<and> \<not> HasPrefix ''ssh://host/ws/repo'' ''git@''
   \<and> parseRemoteURL ''ssh://host/ws/repo'' =
       Inl (New ''unsupported remote url structure: ssh://host/ws/repo'')
   \<and> count_list ''onlyonepart'' CHR ''/'' < 2
   \<and> parseRemoteURL ''https://onlyonepart'' =
       Inl (New ''invalid remote url structure: https://onlyonepart'')
   \<and> CHR '':'' \<notin> set ''host/ws/repo''
   \<and> parseRemoteURL ''git@host/ws/repo'' =
       Inl (New ''invalid remote url structure: git@host/ws/repo'')
   \<and> CHR '':'' \<notin> set ''host'' \<and> CHR ''/'' \<notin> set ''onlyrepo''
   \<and> parseRemoteURL ''git@host:onlyrepo'' =
       Inl (New ''invalid remote url structure: git@host:onlyrepo'')"
  using parseRemoteURL_errors[of "''ssh://host/ws/repo''" "''onlyonepart''" "''host/ws/repo''"
      "''host''" "''onlyrepo''"]
  by (simp add: HasPrefix_def)

text \<open>
  C6.  A release that the run hands to the template comes from a repository that opened,
  with a HEAD and a log iterator, and one of two cases holds.  Either the remote origin
  exists, its first URL parsed to a base URL, and change by change, in the order of the
  commits, the URL is the base URL, \<^verbatim>\<open>/commits/\<close> and the commit's full hash, which is not
  empty.  Or the lookup of origin failed and every change has an empty URL.
\<close>

theorem release_urls:
  assumes "buildRelease w out = Inr release"
  shows "\<exists>repo ref iter. PlainOpen w (workdir w) = Inr repo \<and> Head repo = Inr ref \<and> Log repo ref = Inr iter \<and>
     ((\<exists>url urls base. Remote repo ''origin'' = Inr (url # urls) \<and> parseRemoteURL url = Inr base
          \<and> list_all2 (\<lambda>ch c. URL ch = base @ ''/commits/'' @ Hash c \<and> URL ch \<noteq> [])
               (Changes release) (commits iter))
      \<or> ((\<exists>err. Remote repo ''origin'' = Inl err) \<and> (\<forall>ch\<in>set (Changes release). URL ch = [])))"
proof -
  from assms obtain version ignored repo useURL remoteURL ref iter e where
    repo: "PlainOpen w (workdir w) = Inr repo"
    and origin: "originURL repo out = Inr (useURL, remoteURL)"
    and head: "Head repo = Inr ref" and log: "Log repo ref = Inr iter"
    and each: "ForEach iter (logCallback useURL remoteURL)
            \<lparr>Version = version, Date = Format (Now w), Changes = []\<rparr> = Inr (release, e)"
    unfolding buildRelease_Inr by blast
  from each obtain chs where
    all: "list_all2 (\<lambda>ch c. newChange useURL remoteURL c = Inr ch) chs (commits iter)"
    and changes: "Changes release = chs"
    unfolding ForEach_def by (auto dest!: forEach_result)
  show ?thesis
  proof (cases useURL)
    case True
    with origin obtain url urls where
      remote: "Remote repo ''origin'' = Inr (url # urls)" and parse: "parseRemoteURL url = Inr remoteURL"
      unfolding originURL_Inr by blast
    have "list_all2 (\<lambda>ch c. URL ch = remoteURL @ ''/commits/'' @ Hash c \<and> URL ch \<noteq> []) chs (commits iter)"
    proof (rule list_all2_mono[OF all])
      fix ch c
      assume "newChange useURL remoteURL c = Inr ch"
      then show "URL ch = remoteURL @ ''/commits/'' @ Hash c \<and> URL ch \<noteq> []"
        using True by (simp add: newChange_Inr_iff)
    qed
    with repo head log remote parse changes show ?thesis
      by blast
  next
    case False
    with origin obtain err where remote: "Remote repo ''origin'' = Inl err"
      unfolding originURL_Inr by blast
    have "list_all2 (\<lambda>ch c. URL ch = []) chs (commits iter)"
    proof (rule list_all2_mono[OF all])
      fix ch c
      assume "newChange useURL remoteURL c = Inr ch"
      then show "URL ch = []"
        using False by (simp add: newChange_Inr_iff)
    qed
    then have "\<forall>ch\<in>set chs. URL ch = []"
      by (auto simp: list_all2_conv_all_nth in_set_conv_nth)
    with repo head log remote changes show ?thesis
      by blast
  qed
qed

theorem release_urls_witness:
  "buildRelease (world repo_ssh) \<lparr>stdout = [], stderr = []\<rparr> = Inr release_ssh
   \<and> (\<exists>repo ref iter.
        PlainOpen (world repo_ssh) (workdir (world repo_ssh)) = Inr repo
        \<and> Head repo = Inr ref \<and> Log repo ref = Inr iter \<and>
        ((\<exists>url urls base. Remote repo ''origin'' = Inr (url # urls) \<and> parseRemoteURL url = Inr base
            \<and> list_all2 (\<lambda>ch c. URL ch = base @ ''/commits/'' @ Hash c \<and> URL ch \<noteq> [])
                 (Changes release_ssh) (commits iter))
         \<or> ((\<exists>err. Remote repo ''origin'' = Inl err) \<and> (\<forall>ch\<in>set (Changes release_ssh). URL ch = []))))"
proof -
  have run: "buildRelease (world repo_ssh) \<lparr>stdout = [], stderr = []\<rparr> = Inr release_ssh"
    by code_simp
  from release_urls[OF run] run show ?thesis
    by blast
qed

text \<open>
  C7.  When every hash the iterator yields has at least 7 characters, \<^verbatim>\<open>ForEach\<close> appends
  one change per commit, in order, and for each of them: the SHA is the first 7 characters
  of the hash and has length 7; the title is the part of the message before its first line
  feed, the whole message when it has no line feed, and empty when the message is empty.
\<close>

theorem changes_sha_title:
  assumes "\<forall>c\<in>set (commits iter). 7 \<le> length (Hash c)"
  shows "\<exists>chs. ForEach iter (logCallback useURL remoteURL) release =
             Inr (release\<lparr>Changes := Changes release @ chs\<rparr>, failure iter)
     \<and> list_all2 (\<lambda>ch c.
           SHA ch = take 7 (Hash c) \<and> length (SHA ch) = 7
           \<and> (\<forall>title rest. Message c = title @ newline # rest \<and> newline \<notin> set title \<longrightarrow> Title ch = title)
           \<and> (newline \<notin> set (Message c) \<longrightarrow> Title ch = Message c)
           \<and> (Message c = [] \<longrightarrow> Title ch = []))
         chs (commits iter)"
proof -
  from forEach_total[OF assms, of useURL remoteURL "failure iter" release] obtain chs where
    all: "list_all2 (\<lambda>ch c. newChange useURL remoteURL c = Inr ch) chs (commits iter)"
    and run: "ForEach iter (logCallback useURL remoteURL) release =
              Inr (release\<lparr>Changes := Changes release @ chs\<rparr>, failure iter)"
    unfolding ForEach_def by blast
  have "list_all2 (\<lambda>ch c.
           SHA ch = take 7 (Hash c) \<and> length (SHA ch) = 7
           \<and> (\<forall>title rest. Message c = title @ newline # rest \<and> newline \<notin> set title \<longrightarrow> Title ch = title)
           \<and> (newline \<notin> set (Message c) \<longrightarrow> Title ch = Message c)
           \<and> (Message c = [] \<longrightarrow> Title ch = []))
         chs (commits iter)"
  proof (rule list_all2_mono[OF all])
    fix ch c
    assume "newChange useURL remoteURL c = Inr ch"
    then have long: "7 \<le> length (Hash c)" and sha: "SHA ch = take 7 (Hash c)"
      and title: "Title ch = takeWhile (\<lambda>x. x \<noteq> newline) (Message c)"
      by (simp_all add: newChange_Inr_iff)
    show "SHA ch = take 7 (Hash c) \<and> length (SHA ch) = 7
           \<and> (\<forall>title rest. Message c = title @ newline # rest \<and> newline \<notin> set title \<longrightarrow> Title ch = title)
           \<and> (newline \<notin> set (Message c) \<longrightarrow> Title ch = Message c)
           \<and> (Message c = [] \<longrightarrow> Title ch = [])"
      using long sha title by (auto simp: takeWhile_first takeWhile_absent)
  qed
  with run show ?thesis
    by blast
qed

theorem changes_sha_title_witness:
  "7 \<le> length (Hash commit1) \<and> 7 \<le> length (Hash commit2) \<and> 7 \<le> length (Hash commit3)
   \<and> ForEach \<lparr>commits = [commit1, commit2, commit3], failure = None\<rparr> (logCallback False [])
        \<lparr>Version = ''1.2.0'', Date = ''2026-03-09'', Changes = []\<rparr> = Inr (release_plain, None)
   \<and> (\<exists>chs. ForEach \<lparr>commits = [commit1, commit2, commit3], failure = None\<rparr> (logCallback False [])
               \<lparr>Version = ''1.2.0'', Date = ''2026-03-09'', Changes = []\<rparr> =
             Inr (\<lparr>Version = ''1.2.0'', Date = ''2026-03-09'', Changes = chs\<rparr>, None)
        \<and> list_all2 (\<lambda>ch c.
             SHA ch = take 7 (Hash c) \<and> length (SHA ch) = 7
             \<and> (\<forall>title rest. Message c = title @ newline # rest \<and> newline \<notin> set title \<longrightarrow> Title ch = title)
             \<and> (newline \<notin> set (Message c) \<longrightarrow> Title ch = Message c)
             \<and> (Message c = [] \<longrightarrow> Title ch = []))
           chs [commit1, commit2, commit3])"
proof -
  have long: "7 \<le> length (Hash commit1)" "7 \<le> length (Hash commit2)" "7 \<le> length (Hash commit3)"
    by (simp_all add: commit1_def commit2_def commit3_def)
  then have h: "\<forall>c\<in>set (commits \<lparr>commits = [commit1, commit2, commit3], failure = None\<rparr>).
      7 \<le> length (Hash c)"
    by simp
  have run: "ForEach \<lparr>commits = [commit1, commit2, commit3], failure = None\<rparr> (logCallback False [])
        \<lparr>Version = ''1.2.0'', Date = ''2026-03-09'', Changes = []\<rparr> = Inr (release_plain, None)"
    by code_simp
  from changes_sha_title[OF h, of False "[]" "\<lparr>Version = ''1.2.0'', Date = ''2026-03-09'', Changes = []\<rparr>"]
    long run show ?thesis
    by simp
qed

text \<open>
  C8.  Two invocations that differ in the clock only differ in the date only: an invocation
  that stops before the template stops in the same way whatever the clock says, and
  otherwise the release is the same but for its \<open>Date\<close>, which is the formatted clock, and
  standard output is that release rendered.  For a year of at most four digits the date is
  four digits, a hyphen, two digits, a hyphen and two digits.
\<close>

theorem clock_changes_date_only:
  "buildRelease (w\<lparr>Now := t\<rparr>) out =
     (case buildRelease w out of
        Inl stop \<Rightarrow> Inl stop
      | Inr release \<Rightarrow> Inr (release\<lparr>Date := Format t\<rparr>))
   \<and> Execute (w\<lparr>Now := t\<rparr>) =
     (case buildRelease w \<lparr>stdout = [], stderr = []\<rparr> of
        Inl stop \<Rightarrow> Execute w
      | Inr release \<Rightarrow> (\<lparr>stdout = render (release\<lparr>Date := Format t\<rparr>), stderr = []\<rparr>, None))
   \<and> (Year t \<le> 9999 \<and> Month t \<le> 12 \<and> Day t \<le> 31 \<longrightarrow>
      (\<exists>y m d. Format t = y @ ''-'' @ m @ ''-'' @ d
          \<and> length y = 4 \<and> length m = 2 \<and> length d = 2
          \<and> set (y @ m @ d) \<subseteq> set ''0123456789''))"
  using buildRelease_Now[where w = w and t = t and out = out] Execute_Now[where w = w and t = t]
    Format_shape[of t]
  by blast

theorem clock_changes_date_only_witness:
  "buildRelease (world repo_ssh) \<lparr>stdout = [], stderr = []\<rparr> = Inr release_ssh
   \<and> buildRelease ((world repo_ssh)\<lparr>Now := day2\<rparr>) \<lparr>stdout = [], stderr = []\<rparr> =
       Inr (release_ssh\<lparr>Date := ''2027-11-30''\<rparr>)
   \<and> Execute ((world repo_ssh)\<lparr>Now := day2\<rparr>) =
       (\<lparr>stdout = render (release_ssh\<lparr>Date := ''2027-11-30''\<rparr>), stderr = []\<rparr>, None)
   \<and> Year day2 \<le> 9999 \<and> Month day2 \<le> 12 \<and> Day day2 \<le> 31
   \<and> (\<exists>y m d. Format day2 = y @ ''-'' @ m @ ''-'' @ d
          \<and> length y = 4 \<and> length m = 2 \<and> length d = 2
          \<and> set (y @ m @ d) \<subseteq> set ''0123456789'')"
proof -
  have run: "buildRelease (world repo_ssh) \<lparr>stdout = [], stderr = []\<rparr> = Inr release_ssh"
    by code_simp
  have fmt: "Format day2 = ''2027-11-30''"
    by code_simp
  have rng: "Year day2 \<le> 9999" "Month day2 \<le> 12" "Day day2 \<le> 31"
    by (simp_all add: day2_def)
  from clock_changes_date_only[where w = "world repo_ssh" and t = day2
      and out = "\<lparr>stdout = [], stderr = []\<rparr>"] run fmt rng
  show ?thesis
    by simp
qed

text \<open>
  C9.  When the remote origin exists, element 0 of its URL list is read without a check of
  the length: a list that is not empty has its first URL parsed, and an empty list is a
  panic for an index out of range, which ends the whole invocation with that panic and
  not with \<^verbatim>\<open>bail\<close>.
\<close>

theorem origin_first_url:
  "(Remote repo ''origin'' = Inr (url # urls) \<longrightarrow>
      originURL repo out =
        (case parseRemoteURL url of
           Inl err \<Rightarrow> Inl (bail_exit err out)
         | Inr remoteURL \<Rightarrow> Inr (True, remoteURL)))
   \<and> (Remote repo ''origin'' = Inr [] \<longrightarrow>
      originURL repo out = Inl (out, Panic ''index out of range [0] with length 0''))
   \<and> (args w \<noteq> [] \<and> PlainOpen w (workdir w) = Inr repo \<and> Remote repo ''origin'' = Inr [] \<longrightarrow>
      Execute w = (\<lparr>stdout = [], stderr = []\<rparr>, Some (Panic ''index out of range [0] with length 0'')))"
proof (intro conjI impI)
  assume "Remote repo ''origin'' = Inr (url # urls)"
  then show "originURL repo out =
        (case parseRemoteURL url of
           Inl err \<Rightarrow> Inl (bail_exit err out)
         | Inr remoteURL \<Rightarrow> Inr (True, remoteURL))"
    by (simp add: originURL_def)
next
  assume "Remote repo ''origin'' = Inr []"
  then show "originURL repo out = Inl (out, Panic ''index out of range [0] with length 0'')"
    by (simp add: originURL_def)
next
  assume "args w \<noteq> [] \<and> PlainOpen w (workdir w) = Inr repo \<and> Remote repo ''origin'' = Inr []"
  then show "Execute w = (\<lparr>stdout = [], stderr = []\<rparr>, Some (Panic ''index out of range [0] with length 0''))"
    by (cases "args w")
      (simp_all add: Execute_def rootCmd_Execute_def Run_def buildRelease_def originURL_def)
qed

theorem origin_first_url_witness:
  "Remote repo_ssh ''origin'' = Inr [''git@github.com:acme/widget.git'']
   \<and> originURL repo_ssh \<lparr>stdout = [], stderr = []\<rparr> = Inr (True, ''https://github.com/acme/widget'')
   \<and> Remote repo_no_urls ''origin'' = Inr []
   \<and> originURL repo_no_urls \<lparr>stdout = [], stderr = []\<rparr> =
       Inl (\<lparr>stdout = [], stderr = []\<rparr>, Panic ''index out of range [0] with length 0'')
   \<and> args (world repo_no_urls) \<noteq> []
   \<and> PlainOpen (world repo_no_urls) (workdir (world repo_no_urls)) = Inr repo_no_urls
   \<and> Execute (world repo_no_urls) =
       (\<lparr>stdout = [], stderr = []\<rparr>, Some (Panic ''index out of range [0] with length 0''))"
proof -
  have a: "Remote repo_ssh ''origin'' = Inr [''git@github.com:acme/widget.git'']"
    by (simp add: repo_ssh_def remote_ssh_def)
  have p: "parseRemoteURL ''git@github.com:acme/widget.git'' = Inr ''https://github.com/acme/widget''"
    by (simp add: parseRemoteURL_def HasPrefix_def TrimPrefix_def HasSuffix_def TrimSuffix_def
        Split.simps)
  have b: "Remote repo_no_urls ''origin'' = Inr []"
    by (simp add: repo_no_urls_def remote_no_urls_def)
  have c: "args (world repo_no_urls) \<noteq> []"
    "PlainOpen (world repo_no_urls) (workdir (world repo_no_urls)) = Inr repo_no_urls"
    by (simp_all add: world_def workdir_def open_here_def)
  from origin_first_url[of repo_ssh "''git@github.com:acme/widget.git''" "[]" "\<lparr>stdout = [], stderr = []\<rparr>"] a p
  have 1: "originURL repo_ssh \<lparr>stdout = [], stderr = []\<rparr> = Inr (True, ''https://github.com/acme/widget'')"
    by simp
  from origin_first_url[of repo_no_urls _ _ "\<lparr>stdout = [], stderr = []\<rparr>" "world repo_no_urls"] b c
  have 2: "originURL repo_no_urls \<lparr>stdout = [], stderr = []\<rparr> =
       Inl (\<lparr>stdout = [], stderr = []\<rparr>, Panic ''index out of range [0] with length 0'')"
    and 3: "Execute (world repo_no_urls) =
       (\<lparr>stdout = [], stderr = []\<rparr>, Some (Panic ''index out of range [0] with length 0''))"
    by simp_all
  from a b c 1 2 3 show ?thesis
    by simp
qed

text \<open>
  C10.  An HTTPS remote with more than three segments after the prefix is accepted: the
  first three are host, workspace and repo (less one trailing \<^verbatim>\<open>.git\<close>), and whatever
  follows the third slash is dropped.
\<close>

theorem parseRemoteURL_https_extra_segments:
  assumes "CHR ''/'' \<notin> set host" and "CHR ''/'' \<notin> set ws" and "CHR ''/'' \<notin> set repo"
  shows "parseRemoteURL (''https://'' @ host @ ''/'' @ ws @ ''/'' @ repo @ ''/'' @ extra) =
         Inr (''https://'' @ host @ ''/'' @ ws @ ''/'' @ TrimSuffix repo ''.git'')"
proof -
  let ?url = "''https://'' @ host @ ''/'' @ ws @ ''/'' @ repo @ ''/'' @ extra"
  have pre: "HasPrefix ?url ''https://''"
    by (rule HasPrefix_append)
  have trim: "TrimPrefix ?url ''https://'' = host @ ''/'' @ ws @ ''/'' @ repo @ ''/'' @ extra"
    by (rule TrimPrefix_append)
  have parts: "Split (host @ ''/'' @ ws @ ''/'' @ repo @ ''/'' @ extra) CHR ''/'' =
               host # ws # repo # Split extra CHR ''/''"
    using assms by (simp add: Split_first)
  show ?thesis
    unfolding parseRemoteURL_def using pre by (simp only: trim parts Let_def if_True) simp
qed

theorem parseRemoteURL_https_extra_segments_witness:
  "CHR ''/'' \<notin> set ''host'' \<and> CHR ''/'' \<notin> set ''ws'' \<and> CHR ''/'' \<notin> set ''repo''
   \<and> parseRemoteURL ''https://host/ws/repo/extra'' = Inr ''https://host/ws/repo''
   \<and> parseRemoteURL ''https://host/ws/repo.git/tree/main'' = Inr ''https://host/ws/repo''"
  using parseRemoteURL_https_extra_segments[of "''host''" "''ws''" "''repo''" "''extra''"]
    parseRemoteURL_https_extra_segments[of "''host''" "''ws''" "''repo.git''" "''tree/main''"]
  by (simp add: TrimSuffix_def HasSuffix_def)

end
